theory Spec2Isabelle
  imports Complex_Main "HOL-Library.Multiset" "HOL-Library.Log_Nat"
begin

section \<open>Numbers\<close>

text \<open>
  Prices, sizes and balances are exact rationals: \<open>+\<close>, \<open>-\<close>, \<open>*\<close>, \<open>/\<close>,
  \<open>min\<close>, \<open>max\<close> and \<open>abs\<close> are the exact operations, and \<open>round(x, n)\<close> is
  rounding to the nearest multiple of \<open>10^-n\<close>, an exact tie going to the even
  multiple (what Python's \<open>round\<close> does on the exact value of its argument). The
  two distance tests of the engine are the exception; they are computed in binary
  floating point, as set out below.
\<close>

definition round_half_even :: "rat \<Rightarrow> int" where
  "round_half_even s =
     (let f = \<lfloor>s\<rfloor>; r = s - of_int f
      in if r < 1 / 2 then f
         else if 1 / 2 < r then f + 1
         else if even f then f else f + 1)"

definition py_round :: "rat \<Rightarrow> nat \<Rightarrow> rat" where
  "py_round x n = of_int (round_half_even (x * 10 ^ n)) / 10 ^ n"

definition on_grid :: "nat \<Rightarrow> rat \<Rightarrow> bool" where
  "on_grid n x = (of_int \<lfloor>x * 10 ^ n\<rfloor> = x * 10 ^ n)"

text \<open>
  Where the code compares the distance of two prices with a threshold, the outcome at a
  distance of exactly the threshold depends on binary floating point: \<open>0.48 - 0.47\<close>
  is \<open>0.010000000000000009\<close>, above \<open>0.01\<close>. There a rational stands for the double
  nearest to it, \<open>fl\<close> (binary64: 53 significant bits, ties to even, the exponent
  range taken as unbounded), and subtraction and \<open>round\<close> are the operations on
  doubles: the exact result, rounded to the nearest double.
\<close>

definition pow2 :: "int \<Rightarrow> rat" where
  "pow2 e = (if 0 \<le> e then 2 ^ nat e else 1 / 2 ^ nat (- e))"

definition fl_exponent :: "rat \<Rightarrow> int" where
  \<comment> \<open>the integer part of the binary logarithm of a non-zero \<open>\<bar>x\<bar>\<close>\<close>
  "fl_exponent x =
     (let (a, b) = quotient_of \<bar>x\<bar>; n = bitlen a - bitlen b
      in if pow2 n \<le> \<bar>x\<bar> then n else n - 1)"

definition fl :: "rat \<Rightarrow> rat" where
  "fl x =
     (if x = 0 then 0
      else let e = fl_exponent x - 52
           in of_int (round_half_even (x / pow2 e)) * pow2 e)"

definition float_sub :: "rat \<Rightarrow> rat \<Rightarrow> rat" where
  "float_sub a b = fl (fl a - fl b)"

definition float_round :: "rat \<Rightarrow> nat \<Rightarrow> rat" where
  "float_round x n = fl (py_round (fl x) n)"

section \<open>Constants, tokens, orders\<close>

text \<open>
  Modelled from the spec: the module \<open>poly_market_maker.constants\<close> is not among the
  sources. Its three constants \<open>MIN_TICK\<close>, \<open>MIN_SIZE\<close> and \<open>MAX_DECIMALS\<close> (the
  price tick, the smallest order size and the number of decimal places of prices and
  sizes) are parameters of every function that reads them.
\<close>

record constants =
  MIN_TICK :: rat
  MIN_SIZE :: rat
  MAX_DECIMALS :: nat

text \<open>
  The constants are well-formed when the tick is positive, is itself a price with
  \<open>MAX_DECIMALS\<close> decimals, and leaves the interval \<open>[MIN_TICK, 1 - MIN_TICK]\<close>
  non-empty.
\<close>

definition consts_ok :: "constants \<Rightarrow> bool" where
  "consts_ok c = (0 < MIN_TICK c \<and> 2 * MIN_TICK c < 1 \<and> on_grid (MAX_DECIMALS c) (MIN_TICK c))"

text \<open>The values used wherever a definition is evaluated at a concrete input.\<close>

definition sample_consts :: constants where
  "sample_consts = \<lparr>MIN_TICK = 1 / 100, MIN_SIZE = 15, MAX_DECIMALS = 2\<rparr>"

text \<open>
  Modelled from the spec: the modules \<open>poly_market_maker.token\<close> and
  \<open>poly_market_maker.order\<close> are not among the sources. A token is one of exactly two
  complementary outcome identifiers, enumerated in a fixed order; an order is an
  immutable value of price, size, side and token, compared by value.
\<close>

datatype Token = TokenA | TokenB

fun complement :: "Token \<Rightarrow> Token" where
  "complement TokenA = TokenB"
| "complement TokenB = TokenA"


datatype Side = BUY | SELL

record Order =
  price :: rat
  osize :: rat
  side :: Side
  token :: Token

datatype error = KeyError | ZeroDivisionError | TypeError

section \<open>safe\_spread.py: helpers\<close>

definition round_price :: "constants \<Rightarrow> rat \<Rightarrow> rat" where
  "round_price c x = py_round (max (MIN_TICK c) (min (1 - MIN_TICK c) x)) (MAX_DECIMALS c)"

definition clamp :: "rat \<Rightarrow> rat \<Rightarrow> rat \<Rightarrow> rat" where
  "clamp x lo hi = max lo (min hi x)"

section \<open>safe\_spread.py: configuration\<close>

text \<open>
  A configuration value is a number or Python's \<open>None\<close>; the dictionary is a map from
  key names. \<open>float(None)\<close> and \<open>int(None)\<close> raise \<open>TypeError\<close>; \<open>int\<close> of a
  number truncates toward zero.
\<close>

datatype cfg_value = Num rat | PyNone

type_synonym cfg = "string \<rightharpoonup> cfg_value"

definition bind_err :: "error + 'a \<Rightarrow> ('a \<Rightarrow> error + 'b) \<Rightarrow> error + 'b" where
  "bind_err m f = (case m of Inl e \<Rightarrow> Inl e | Inr x \<Rightarrow> f x)"

fun py_float :: "cfg_value \<Rightarrow> error + rat" where
  "py_float (Num x) = Inr x"
| "py_float PyNone = Inl TypeError"

fun py_int :: "cfg_value \<Rightarrow> error + int" where
  "py_int (Num x) = Inr (if 0 \<le> x then \<lfloor>x\<rfloor> else \<lceil>x\<rceil>)"
| "py_int PyNone = Inl TypeError"

record SafeSpread =
  target_spread :: rat
  half_spread_override :: cfg_value
  order_size :: rat
  max_bids :: int
  max_asks :: int
  cancel_if_away_by :: rat
  max_inventory_per_token :: rat
  max_notional_per_side :: rat
  skew_per_unit :: rat
  min_place_size :: rat
  mm_balances :: "Token \<rightharpoonup> rat"
  mm_free_collateral :: rat

fun get :: "cfg \<Rightarrow> string list \<Rightarrow> cfg_value \<Rightarrow> cfg_value" where
  "get cfg [] dflt = dflt"
| "get cfg (k # keys) dflt = (case cfg k of Some v \<Rightarrow> v | None \<Rightarrow> get cfg keys dflt)"

definition init :: "cfg \<Rightarrow> error + SafeSpread" where
  "init cfg =
     bind_err (py_float (get cfg [''target_spread'', ''targetSpread''] (Num (3 / 100)))) (\<lambda>ts.
     let hso = get cfg [''half_spread_override'', ''halfSpreadOverride''] PyNone in
     bind_err (py_float (get cfg [''order_size'', ''orderSize''] (Num 10))) (\<lambda>os.
     bind_err (py_int (get cfg [''max_bids'', ''maxBids''] (Num 2))) (\<lambda>mb.
     bind_err (py_int (get cfg [''max_asks'', ''maxAsks''] (Num 2))) (\<lambda>ma.
     bind_err (py_float (get cfg [''cancel_if_away_by'', ''cancelIfAwayBy''] (Num (2 / 100)))) (\<lambda>ca.
     bind_err (py_float (get cfg [''max_inventory_per_token'', ''maxInventoryPerToken''] (Num 40))) (\<lambda>mi.
     bind_err (py_float (get cfg [''max_notional_per_side'', ''maxNotionalPerSide''] (Num 120))) (\<lambda>mn.
     bind_err (py_float (get cfg [''skew_per_unit'', ''skewPerUnit''] (Num (5 / 10000)))) (\<lambda>sk.
     bind_err (py_float (get cfg [''min_place_size'', ''minPlaceSize''] (Num (1 / 10)))) (\<lambda>mp.
     Inr \<lparr>target_spread = ts, half_spread_override = hso, order_size = os,
          max_bids = mb, max_asks = ma, cancel_if_away_by = ca,
          max_inventory_per_token = mi, max_notional_per_side = mn,
          skew_per_unit = sk, min_place_size = mp,
          mm_balances = (\<lambda>t. Some 0), mm_free_collateral = 0\<rparr>)))))))))"

definition set_context :: "SafeSpread \<Rightarrow> (Token \<rightharpoonup> rat) \<Rightarrow> rat \<Rightarrow> SafeSpread" where
  "set_context s bals free = s\<lparr>mm_balances := bals, mm_free_collateral := free\<rparr>"

section \<open>safe\_spread.py: quotes\<close>

definition holdings :: "SafeSpread \<Rightarrow> Token \<Rightarrow> rat" where
  \<comment> \<open>\<open>float(self._balances.get(token, 0.0))\<close>\<close>
  "holdings s t = (case mm_balances s t of Some b \<Rightarrow> b | None \<Rightarrow> 0)"

definition mid_with_skew :: "constants \<Rightarrow> SafeSpread \<Rightarrow> rat \<Rightarrow> Token \<Rightarrow> rat" where
  "mid_with_skew c s base_mid t =
     (let inv = holdings s t; skew = inv * skew_per_unit s
      in round_price c (base_mid - skew))"

definition desired_quotes :: "constants \<Rightarrow> SafeSpread \<Rightarrow> rat \<Rightarrow> rat \<times> rat" where
  "desired_quotes c s mid =
     (let half = (case half_spread_override s of Num h \<Rightarrow> h | PyNone \<Rightarrow> target_spread s / 2);
          half = max half (MIN_TICK c);
          bid = round_price c (mid - half);
          ask = round_price c (mid + half)
      in if ask \<le> bid then (bid, round_price c (bid + MIN_TICK c)) else (bid, ask))"

section \<open>safe\_spread.py: cancellation\<close>

definition deduce_buy_token :: "Order list \<Rightarrow> Token option" where
  "deduce_buy_token ords =
     (case find (\<lambda>od. side od = BUY) ords of
        Some od \<Rightarrow> Some (token od)
      | None \<Rightarrow>
          (case find (\<lambda>od. side od = SELL) ords of
             Some od \<Rightarrow> Some (complement (token od))
           | None \<Rightarrow> None))"

definition effective_price :: "constants \<Rightarrow> Order \<Rightarrow> rat" where
  "effective_price c od =
     (if side od = BUY then price od
      else float_round (float_sub 1 (price od)) (MAX_DECIMALS c))"

definition closeness :: "constants \<Rightarrow> rat \<Rightarrow> rat \<Rightarrow> Order \<Rightarrow> rat" where
  "closeness c bid_target ask_target od =
     \<bar>float_sub (effective_price c od) (if side od = BUY then bid_target else ask_target)\<bar>"

definition slice_from :: "'a list \<Rightarrow> int \<Rightarrow> 'a list" where
  \<comment> \<open>Python's \<open>xs[n:]\<close>: a negative \<open>n\<close> counts from the end.\<close>
  "slice_from xs n =
     (if 0 \<le> n then drop (nat n) xs else drop (nat (int (length xs) + n)) xs)"

definition far_aways :: "constants \<Rightarrow> SafeSpread \<Rightarrow> rat \<Rightarrow> rat \<Rightarrow> Order list \<Rightarrow> Order list" where
  "far_aways c s bid_target ask_target ords =
     filter (\<lambda>od. fl (cancel_if_away_by s) < closeness c bid_target ask_target od) ords"

definition keep_side :: "constants \<Rightarrow> SafeSpread \<Rightarrow> rat \<Rightarrow> rat \<Rightarrow> Side \<Rightarrow> Order list \<Rightarrow> Order list" where
  \<comment> \<open>\<open>keep_buys\<close> and \<open>keep_sells\<close> after their \<open>sort(key=closeness)\<close>\<close>
  "keep_side c s bid_target ask_target sd ords =
     sort_key (closeness c bid_target ask_target)
       (filter (\<lambda>od. side od = sd \<and> od \<notin> set (far_aways c s bid_target ask_target ords)) ords)"

definition cancel_extra :: "Order list \<Rightarrow> int \<Rightarrow> Order list" where
  "cancel_extra keep n = (if n < int (length keep) then slice_from keep n else [])"

definition cancellable_orders :: "constants \<Rightarrow> SafeSpread \<Rightarrow> Order list \<Rightarrow> rat \<Rightarrow> Order list" where
  "cancellable_orders c s ords target_price =
     (if ords = [] then []
      else case deduce_buy_token ords of
        None \<Rightarrow> []
      | Some buy_token \<Rightarrow>
          (let mid = mid_with_skew c s target_price buy_token;
               (bid_target, ask_target) = desired_quotes c s mid;
               keep_buys = keep_side c s bid_target ask_target BUY ords;
               keep_sells = keep_side c s bid_target ask_target SELL ords
           in far_aways c s bid_target ask_target ords
                @ cancel_extra keep_buys (max_bids s)
                @ cancel_extra keep_sells (max_asks s)))"

section \<open>safe\_spread.py: placement\<close>

fun has_near :: "constants \<Rightarrow> Order list \<Rightarrow> Side \<Rightarrow> rat \<Rightarrow> rat \<Rightarrow> bool" where
  "has_near c [] sd price_buy_space eps = False"
| "has_near c (od # ords) sd price_buy_space eps =
     (if side od \<noteq> sd then has_near c ords sd price_buy_space eps
      else if \<bar>float_sub
                  (if sd = BUY then price od
                   else float_round (float_sub 1 (price od)) (MAX_DECIMALS c))
                  price_buy_space\<bar> \<le> fl eps
           then True
           else has_near c ords sd price_buy_space eps)"

definition can_place_ask :: "constants \<Rightarrow> SafeSpread \<Rightarrow> rat \<Rightarrow> bool" where
  "can_place_ask c s token_balance = (max (min_place_size s) (MIN_SIZE c) \<le> token_balance)"

definition ask_size :: "constants \<Rightarrow> SafeSpread \<Rightarrow> rat \<Rightarrow> Token \<Rightarrow> rat" where
  "ask_size c s token_balance t =
     (let sz = min (order_size s) token_balance;
          inv = holdings s t;
          sz = (if max_inventory_per_token s < inv
                then max sz (min (inv - max_inventory_per_token s) token_balance)
                else sz)
      in py_round (clamp sz (MIN_SIZE c) token_balance) (MAX_DECIMALS c))"

definition can_place_bid :: "constants \<Rightarrow> SafeSpread \<Rightarrow> rat \<Rightarrow> rat \<Rightarrow> Token \<Rightarrow> bool" where
  "can_place_bid c s collateral_balance p buy_token =
     (if collateral_balance < p * max (min_place_size s) (MIN_SIZE c) then False
      else if max_notional_per_side s < p * order_size s then False
      else if max_inventory_per_token s \<le> holdings s buy_token then False
      else True)"

definition bid_size :: "constants \<Rightarrow> SafeSpread \<Rightarrow> rat \<Rightarrow> rat \<Rightarrow> Token \<Rightarrow> error + rat" where
  "bid_size c s collateral_balance p buy_token =
     (if p = 0 then Inl ZeroDivisionError
      else
        let max_by_cash = collateral_balance / p;
            max_by_notional = max_notional_per_side s / p;
            inv_now = holdings s buy_token;
            headroom = max 0 (max_inventory_per_token s - inv_now);
            sz = min (min (min (order_size s) max_by_cash) max_by_notional) headroom
        in Inr (py_round (clamp sz (MIN_SIZE c) 1000000000) (MAX_DECIMALS c)))"

definition new_orders ::
  "constants \<Rightarrow> SafeSpread \<Rightarrow> Order list \<Rightarrow> rat \<Rightarrow> rat \<Rightarrow> rat \<Rightarrow> Token \<Rightarrow> error + Order list" where
  "new_orders c s ords collateral_balance token_balance target_price buy_token =
     (let mid = mid_with_skew c s target_price buy_token;
          (bid_target, ask_target) = desired_quotes c s mid;
          sell_token = complement buy_token;
          sell_price_actual = round_price c (1 - ask_target);
          asks =
            (if \<not> has_near c ords SELL ask_target (MIN_TICK c) \<and> can_place_ask c s token_balance
             then
               let a = ask_size c s token_balance sell_token
               in if max (min_place_size s) (MIN_SIZE c) \<le> a
                  then [\<lparr>price = sell_price_actual, osize = a, side = SELL, token = sell_token\<rparr>]
                  else []
             else [])
      in if \<not> has_near c ords BUY bid_target (MIN_TICK c)
            \<and> can_place_bid c s collateral_balance bid_target buy_token
         then
           bind_err (bid_size c s collateral_balance bid_target buy_token) (\<lambda>b.
             Inr (asks @
               (if max (min_place_size s) (MIN_SIZE c) \<le> b
                then [\<lparr>price = bid_target, osize = b, side = BUY, token = buy_token\<rparr>]
                else [])))
         else Inr asks)"

section \<open>safe\_spread\_strategy.py\<close>












section \<open>Concrete inputs\<close>

text \<open>The engine built from an empty configuration: every parameter at its default.\<close>

definition default_mm :: SafeSpread where
  "default_mm =
     \<lparr>target_spread = 3 / 100, half_spread_override = PyNone, order_size = 10,
      max_bids = 2, max_asks = 2, cancel_if_away_by = 2 / 100,
      max_inventory_per_token = 40, max_notional_per_side = 120,
      skew_per_unit = 5 / 10000, min_place_size = 1 / 10,
      mm_balances = (\<lambda>t. Some 0), mm_free_collateral = 0\<rparr>"

text \<open>The spec's example engine: a spread of 0.04 and no inventory skew.\<close>

definition mm_spread4 :: SafeSpread where
  "mm_spread4 = default_mm\<lparr>target_spread := 4 / 100, skew_per_unit := 0\<rparr>"

text \<open>
  The spec's wording of the configuration lookup: the snake\_case name first, the
  camelCase name second, the documented default when both are absent; and the names
  the constructor recognises.
\<close>

definition resolve :: "cfg \<Rightarrow> string \<Rightarrow> string \<Rightarrow> cfg_value \<Rightarrow> cfg_value" where
  "resolve cfg snake camel dflt =
     (case cfg snake of
        Some v \<Rightarrow> v
      | None \<Rightarrow> (case cfg camel of Some v \<Rightarrow> v | None \<Rightarrow> dflt))"

definition config_keys :: "string list" where
  "config_keys =
     [''target_spread'', ''targetSpread'', ''half_spread_override'', ''halfSpreadOverride'',
      ''order_size'', ''orderSize'', ''max_bids'', ''maxBids'', ''max_asks'', ''maxAsks'',
      ''cancel_if_away_by'', ''cancelIfAwayBy'',
      ''max_inventory_per_token'', ''maxInventoryPerToken'',
      ''max_notional_per_side'', ''maxNotionalPerSide'',
      ''skew_per_unit'', ''skewPerUnit'', ''min_place_size'', ''minPlaceSize'']"

definition sample_cfg :: cfg where
  "sample_cfg =
     [''targetSpread'' \<mapsto> Num (4 / 100), ''order_size'' \<mapsto> Num 20, ''orderSize'' \<mapsto> Num 30,
      ''max_bids'' \<mapsto> Num 3, ''colour'' \<mapsto> Num 1]"

text \<open>
  Engines in mid-cycle: token A held one unit below the inventory cap, token A held at
  half the cap, and token B held above the cap.
\<close>

definition mm_near_cap :: SafeSpread where
  "mm_near_cap = set_context mm_spread4 [TokenA \<mapsto> 39, TokenB \<mapsto> 0] 100"

definition mm_half_cap :: SafeSpread where
  "mm_half_cap = set_context mm_spread4 [TokenA \<mapsto> 20, TokenB \<mapsto> 0] 100"

definition mm_over_cap :: SafeSpread where
  "mm_over_cap = set_context mm_spread4 [TokenA \<mapsto> 0, TokenB \<mapsto> 70] 0"







section \<open>Rounding lemmas\<close>

text \<open>
  The doubles behind three decimals, and the two float results that decide the
  distance tests at one tick: \<open>0.48 - 0.47\<close> and \<open>round(1.0 - 0.475, 2)\<close>.
\<close>

lemma fl_examples:
  "fl (1 / 10) = 3602879701896397 / 2 ^ 55"
  "fl (1 / 100) = 5764607523034235 / 2 ^ 59"
  "fl (47 / 100) = 2116691824864133 / 2 ^ 52"
  "float_sub (48 / 100) (47 / 100) = 45035996273705 / 2 ^ 52"
  "fl (1 / 100) < float_sub (48 / 100) (47 / 100)"
  "float_round (float_sub 1 (475 / 1000)) 2 = fl (53 / 100)"
  by code_simp+

lemma round_half_even_of_int: "round_half_even (of_int k) = k"
  by (simp add: round_half_even_def)

lemma round_half_even_lower: "\<lfloor>s\<rfloor> \<le> round_half_even s"
  by (simp add: round_half_even_def Let_def)

lemma round_half_even_upper: "round_half_even s \<le> \<lfloor>s\<rfloor> + 1"
  by (simp add: round_half_even_def Let_def)

lemma round_half_even_mono:
  assumes "s \<le> t"
  shows "round_half_even s \<le> round_half_even t"
proof (cases "\<lfloor>s\<rfloor> = \<lfloor>t\<rfloor>")
  case True
  with assms show ?thesis
    by (auto simp: round_half_even_def Let_def)
next
  case False
  with assms have "\<lfloor>s\<rfloor> < \<lfloor>t\<rfloor>"
    using floor_mono [of s t] by linarith
  then have "round_half_even s \<le> \<lfloor>t\<rfloor>"
    using round_half_even_upper [of s] by linarith
  then show ?thesis
    using round_half_even_lower [of t] by linarith
qed

lemma on_grid_iff: "on_grid n x \<longleftrightarrow> (\<exists>k::int. x = of_int k / 10 ^ n)"
proof
  assume "on_grid n x"
  then have "of_int \<lfloor>x * 10 ^ n\<rfloor> / 10 ^ n = x * 10 ^ n / 10 ^ n"
    unfolding on_grid_def by (rule arg_cong)
  then have "x = of_int \<lfloor>x * 10 ^ n\<rfloor> / 10 ^ n"
    by simp
  then show "\<exists>k::int. x = of_int k / 10 ^ n" ..
next
  assume "\<exists>k::int. x = of_int k / 10 ^ n"
  then obtain k :: int where "x = of_int k / 10 ^ n" ..
  then show "on_grid n x"
    by (simp add: on_grid_def)
qed

lemma py_round_on_grid: "on_grid n (py_round x n)"
  unfolding on_grid_iff py_round_def by blast

lemma py_round_id: "on_grid n x \<Longrightarrow> py_round x n = x"
  by (auto simp: on_grid_iff py_round_def round_half_even_of_int)

lemma py_round_mono: "x \<le> y \<Longrightarrow> py_round x n \<le> py_round y n"
  by (simp add: py_round_def divide_right_mono round_half_even_mono)

lemma on_grid_one: "on_grid n 1"
proof -
  have "(1::rat) = of_int (10 ^ n) / 10 ^ n" by simp
  then show ?thesis unfolding on_grid_iff ..
qed

lemma on_grid_diff: "on_grid n x \<Longrightarrow> on_grid n y \<Longrightarrow> on_grid n (x - y)"
proof -
  assume "on_grid n x" and "on_grid n y"
  then obtain k l :: int where "x = of_int k / 10 ^ n" and "y = of_int l / 10 ^ n"
    unfolding on_grid_iff by blast
  then have "x - y = of_int (k - l) / 10 ^ n"
    by (simp add: diff_divide_distrib)
  then show ?thesis unfolding on_grid_iff ..
qed

lemma on_grid_add: "on_grid n x \<Longrightarrow> on_grid n y \<Longrightarrow> on_grid n (x + y)"
proof -
  assume "on_grid n x" and "on_grid n y"
  then obtain k l :: int where "x = of_int k / 10 ^ n" and "y = of_int l / 10 ^ n"
    unfolding on_grid_iff by blast
  then have "x + y = of_int (k + l) / 10 ^ n"
    by (simp add: add_divide_distrib)
  then show ?thesis unfolding on_grid_iff ..
qed

lemma round_price_lower:
  assumes "consts_ok c"
  shows "MIN_TICK c \<le> round_price c x"
proof -
  have "py_round (MIN_TICK c) (MAX_DECIMALS c) \<le> round_price c x"
    unfolding round_price_def by (rule py_round_mono) simp
  with assms show ?thesis
    by (simp add: consts_ok_def py_round_id)
qed

lemma round_price_upper:
  assumes "consts_ok c"
  shows "round_price c x \<le> 1 - MIN_TICK c"
proof -
  from assms have g: "on_grid (MAX_DECIMALS c) (1 - MIN_TICK c)"
    by (simp add: consts_ok_def on_grid_one on_grid_diff)
  from assms have "max (MIN_TICK c) (min (1 - MIN_TICK c) x) \<le> 1 - MIN_TICK c"
    by (simp add: consts_ok_def)
  then have "round_price c x \<le> py_round (1 - MIN_TICK c) (MAX_DECIMALS c)"
    unfolding round_price_def by (rule py_round_mono)
  with g show ?thesis
    by (simp add: py_round_id)
qed

lemma round_price_on_grid: "on_grid (MAX_DECIMALS c) (round_price c x)"
  by (simp add: round_price_def py_round_on_grid)

lemma sample_consts_ok: "consts_ok sample_consts"
  by (simp add: consts_ok_def sample_consts_def on_grid_def)

lemma on_grid_min: "on_grid n x \<Longrightarrow> on_grid n y \<Longrightarrow> on_grid n (min x y)"
  by (simp add: min_def)

lemma on_grid_max: "on_grid n x \<Longrightarrow> on_grid n y \<Longrightarrow> on_grid n (max x y)"
  by (simp add: max_def)

lemma round_price_mono: "x \<le> y \<Longrightarrow> round_price c x \<le> round_price c y"
  unfolding round_price_def by (rule py_round_mono) (simp add: max.coboundedI2 min.coboundedI2)

lemma round_price_step:
  assumes ok: "consts_ok c" and g: "on_grid (MAX_DECIMALS c) b"
    and lo: "MIN_TICK c \<le> b" and hi: "b < 1 - MIN_TICK c"
  shows "b < round_price c (b + MIN_TICK c)"
proof -
  let ?v = "min (1 - MIN_TICK c) (b + MIN_TICK c)"
  from ok have tick: "0 < MIN_TICK c" and gt: "on_grid (MAX_DECIMALS c) (MIN_TICK c)"
    by (simp_all add: consts_ok_def)
  have gv: "on_grid (MAX_DECIMALS c) ?v"
    by (intro on_grid_min on_grid_diff on_grid_add on_grid_one g gt)
  from lo hi tick have bv: "b < ?v" and lv: "MIN_TICK c \<le> ?v"
    by simp_all
  have "round_price c (b + MIN_TICK c) = py_round (max (MIN_TICK c) ?v) (MAX_DECIMALS c)"
    by (simp add: round_price_def)
  also from lv have "\<dots> = py_round ?v (MAX_DECIMALS c)"
    by (simp add: max_absorb2)
  also from gv have "\<dots> = ?v"
    by (rule py_round_id)
  finally show ?thesis
    using bv by simp
qed

section \<open>Price normalization\<close>

text \<open>
  C6. For every input \<open>x\<close>, the output of \<open>_round_price\<close> lies in
  \<open>[MIN_TICK, 1 - MIN_TICK]\<close> and has at most \<open>MAX_DECIMALS\<close> fractional digits (it is
  an integer multiple of \<open>10^-MAX_DECIMALS\<close>), although the function clamps first and
  rounds second: the two bounds are themselves prices with \<open>MAX_DECIMALS\<close> decimals,
  so rounding cannot move a clamped value past them.
\<close>

theorem round_price_range:
  assumes "consts_ok c"
  shows "MIN_TICK c \<le> round_price c x \<and> round_price c x \<le> 1 - MIN_TICK c
         \<and> (\<exists>k::int. round_price c x = of_int k / 10 ^ MAX_DECIMALS c)"
  using assms round_price_lower [of c x] round_price_upper [of c x]
    round_price_on_grid [of c x]
  by (simp add: on_grid_iff)

theorem round_price_range_witness:
  "consts_ok sample_consts
   \<and> MIN_TICK sample_consts \<le> round_price sample_consts 5
   \<and> round_price sample_consts 5 \<le> 1 - MIN_TICK sample_consts
   \<and> (\<exists>k::int. round_price sample_consts 5 = of_int k / 10 ^ MAX_DECIMALS sample_consts)"
  using round_price_range [OF sample_consts_ok, of 5] sample_consts_ok
  by blast

section \<open>Desired quotes\<close>

lemma desired_quotes_cases:
  assumes "desired_quotes c s mid = (bid, ask)"
  obtains h where "MIN_TICK c \<le> h" and "bid = round_price c (mid - h)"
    and "round_price c (mid + h) \<le> bid \<and> ask = round_price c (bid + MIN_TICK c)
         \<or> bid < round_price c (mid + h) \<and> ask = round_price c (mid + h)"
proof -
  let ?h = "max (case half_spread_override s of Num h \<Rightarrow> h | PyNone \<Rightarrow> target_spread s / 2)
              (MIN_TICK c)"
  have "MIN_TICK c \<le> ?h" by simp
  moreover from assms have "bid = round_price c (mid - ?h)"
    by (auto simp: desired_quotes_def Let_def split: if_splits)
  moreover from assms have
    "round_price c (mid + ?h) \<le> bid \<and> ask = round_price c (bid + MIN_TICK c)
     \<or> bid < round_price c (mid + ?h) \<and> ask = round_price c (mid + ?h)"
    by (auto simp: desired_quotes_def Let_def split: if_splits)
  ultimately show thesis by (rule that)
qed

lemma desired_quotes_default_half: "desired_quotes sample_consts default_mm (1 / 2) = (12 / 25, 13 / 25)"
  by code_simp

text \<open>
  C1, as stated: for every midpoint and half-spread the pair returned by
  \<open>_desired_quotes\<close> has \<open>ask > bid\<close>, also when \<open>bid\<close> is at the upper clamp bound.
  It fails for a midpoint above the price range: at \<open>mid = 2\<close> with the default
  half-spread both quotes are clamped to \<open>1 - MIN_TICK\<close>, and the forced
  \<open>ask = round_price(bid + MIN_TICK) = round_price(1)\<close> is clamped back onto \<open>bid\<close>.
\<close>

theorem desired_quotes_coincide_at_upper_clamp:
  "\<not> fst (desired_quotes sample_consts default_mm 2) < snd (desired_quotes sample_consts default_mm 2)"
  by code_simp

text \<open>
  C1, amended: the returned pair has \<open>ask > bid\<close> exactly when \<open>bid\<close> is below the
  upper clamp bound \<open>1 - MIN_TICK\<close>; this is the case for every midpoint
  \<open>mid \<le> 1 - MIN_TICK\<close>, hence for every midpoint that \<open>_mid_with_skew\<close> produces,
  and for every configured half-spread.
\<close>

theorem desired_quotes_ask_above_bid:
  assumes ok: "consts_ok c" and dq: "desired_quotes c s mid = (bid, ask)"
  shows "(bid < ask \<longleftrightarrow> bid < 1 - MIN_TICK c) \<and> (mid \<le> 1 - MIN_TICK c \<longrightarrow> bid < ask)"
proof -
  from dq obtain h where h: "MIN_TICK c \<le> h" and bid: "bid = round_price c (mid - h)"
    and ask: "round_price c (mid + h) \<le> bid \<and> ask = round_price c (bid + MIN_TICK c)
         \<or> bid < round_price c (mid + h) \<and> ask = round_price c (mid + h)"
    by (rule desired_quotes_cases)
  from ok have tick: "0 < MIN_TICK c" "2 * MIN_TICK c < 1"
    and gt: "on_grid (MAX_DECIMALS c) (MIN_TICK c)"
    by (simp_all add: consts_ok_def)
  have gb: "on_grid (MAX_DECIMALS c) bid" and lo: "MIN_TICK c \<le> bid"
    and hi: "bid \<le> 1 - MIN_TICK c"
    using ok by (simp_all add: bid round_price_on_grid round_price_lower round_price_upper)
  have up: "ask \<le> 1 - MIN_TICK c"
    using ask ok by (auto simp: round_price_upper)
  have below: "bid < ask" if "bid < 1 - MIN_TICK c"
    using ask round_price_step [OF ok gb lo that] by auto
  have iff: "bid < ask \<longleftrightarrow> bid < 1 - MIN_TICK c"
    using below up hi by auto
  have "bid < 1 - MIN_TICK c" if m: "mid \<le> 1 - MIN_TICK c"
  proof -
    let ?u = "max (MIN_TICK c) (1 - 2 * MIN_TICK c)"
    have gu: "on_grid (MAX_DECIMALS c) ?u"
    proof -
      have "on_grid (MAX_DECIMALS c) (1 - MIN_TICK c - MIN_TICK c)"
        by (intro on_grid_diff on_grid_one gt)
      then have "on_grid (MAX_DECIMALS c) (1 - 2 * MIN_TICK c)" by simp
      with gt show ?thesis by (rule on_grid_max)
    qed
    from m h have "max (MIN_TICK c) (min (1 - MIN_TICK c) (mid - h)) \<le> ?u"
      by auto
    then have "bid \<le> py_round ?u (MAX_DECIMALS c)"
      unfolding bid round_price_def by (rule py_round_mono)
    also from gu have "\<dots> = ?u" by (rule py_round_id)
    also from tick have "\<dots> < 1 - MIN_TICK c" by simp
    finally show ?thesis .
  qed
  with iff show ?thesis by blast
qed

theorem desired_quotes_ask_above_bid_witness:
  "consts_ok sample_consts
   \<and> desired_quotes sample_consts default_mm (1 / 2) = (12 / 25, 13 / 25)
   \<and> (1 / 2 :: rat) \<le> 1 - MIN_TICK sample_consts
   \<and> (12 / 25 :: rat) < 1 - MIN_TICK sample_consts
   \<and> (12 / 25 :: rat) < 13 / 25"
  using desired_quotes_ask_above_bid [OF sample_consts_ok desired_quotes_default_half]
    sample_consts_ok desired_quotes_default_half
  by (simp add: sample_consts_def)

section \<open>No division by zero in bid sizing\<close>

lemma desired_quotes_bid_lower:
  assumes "consts_ok c"
  shows "MIN_TICK c \<le> fst (desired_quotes c s mid)"
proof -
  obtain bid ask where dq: "desired_quotes c s mid = (bid, ask)"
    by (cases "desired_quotes c s mid")
  then obtain h where "bid = round_price c (mid - h)"
    by (rule desired_quotes_cases)
  with assms dq show ?thesis
    by (simp add: round_price_lower)
qed

lemma bid_size_Inr: "p \<noteq> 0 \<Longrightarrow> \<exists>b. bid_size c s cash p t = Inr b"
  by (simp add: bid_size_def Let_def)

lemma new_orders_Inr:
  assumes "fst (desired_quotes c s (mid_with_skew c s target_price buy_token)) \<noteq> 0"
  shows "\<exists>new. new_orders c s ords cash token_balance target_price buy_token = Inr new"
proof -
  obtain bid ask where dq: "desired_quotes c s (mid_with_skew c s target_price buy_token) = (bid, ask)"
    by (cases "desired_quotes c s (mid_with_skew c s target_price buy_token)")
  with assms have "bid \<noteq> 0" by simp
  then obtain b where "bid_size c s cash bid buy_token = Inr b"
    using bid_size_Inr by blast
  with dq show ?thesis
    by (simp add: new_orders_def Let_def bind_err_def)
qed

text \<open>
  C10. In every call of \<open>_bid_size\<close> and \<open>_can_place_bid\<close> reached from
  \<open>new_orders\<close> the price argument is the bid target, which \<open>_round_price\<close> produced
  and which is therefore at least \<open>MIN_TICK > 0\<close>: the divisions by the price never
  divide by zero, \<open>_bid_size\<close> does not raise \<open>ZeroDivisionError\<close> there, and
  \<open>new_orders\<close> returns a list.
\<close>

theorem bid_target_never_zero:
  assumes "consts_ok c"
  shows "0 < MIN_TICK c
         \<and> MIN_TICK c \<le> fst (desired_quotes c s (mid_with_skew c s target_price buy_token))
         \<and> bid_size c s cash (fst (desired_quotes c s (mid_with_skew c s target_price buy_token)))
              buy_token \<noteq> Inl ZeroDivisionError
         \<and> (\<exists>new. new_orders c s ords cash token_balance target_price buy_token = Inr new)"
proof -
  let ?bid = "fst (desired_quotes c s (mid_with_skew c s target_price buy_token))"
  from assms have tick: "0 < MIN_TICK c" by (simp add: consts_ok_def)
  from assms have lo: "MIN_TICK c \<le> ?bid" by (rule desired_quotes_bid_lower)
  with tick have nz: "?bid \<noteq> 0" by simp
  then have "bid_size c s cash ?bid buy_token \<noteq> Inl ZeroDivisionError"
    using bid_size_Inr [of ?bid c s cash buy_token] by auto
  moreover from nz have "\<exists>new. new_orders c s ords cash token_balance target_price buy_token = Inr new"
    by (rule new_orders_Inr)
  ultimately show ?thesis using tick lo by blast
qed

theorem bid_target_never_zero_witness:
  "consts_ok sample_consts
   \<and> 0 < MIN_TICK sample_consts
   \<and> MIN_TICK sample_consts \<le> fst (desired_quotes sample_consts default_mm (mid_with_skew sample_consts default_mm (1 / 2) TokenA))
   \<and> bid_size sample_consts default_mm 100 (fst (desired_quotes sample_consts default_mm (mid_with_skew sample_consts default_mm (1 / 2) TokenA))) TokenA
        \<noteq> Inl ZeroDivisionError
   \<and> (\<exists>new. new_orders sample_consts default_mm [] 100 0 (1 / 2) TokenA = Inr new)"
  using bid_target_never_zero [OF sample_consts_ok, of default_mm "1 / 2" TokenA 100 "[]" 0]
    sample_consts_ok
  by blast

section \<open>Near-duplicate suppression\<close>








section \<open>Degenerate input of the cancellation decision\<close>

lemma deduce_buy_token_None:
  "(\<forall>od\<in>set ords. side od \<noteq> BUY \<and> side od \<noteq> SELL) \<Longrightarrow> deduce_buy_token ords = None"
  by (auto simp: deduce_buy_token_def find_None_iff split: option.splits)

text \<open>
  C8. For every target price, \<open>cancellable_orders\<close> applied to an empty order list, or
  to a list with no BUY and no SELL from which the buy-token could be determined,
  returns the empty list; it raises no error.
\<close>

theorem cancellable_orders_degenerate:
  "cancellable_orders c s [] target_price = []
   \<and> ((\<forall>od\<in>set ords. side od \<noteq> BUY \<and> side od \<noteq> SELL)
        \<longrightarrow> cancellable_orders c s ords target_price = [])"
  by (simp add: cancellable_orders_def deduce_buy_token_None)

theorem cancellable_orders_degenerate_witness:
  "cancellable_orders sample_consts default_mm [] (1 / 2) = []
   \<and> deduce_buy_token [] = None"
  using cancellable_orders_degenerate [of sample_consts default_mm "1 / 2" "[]"]
  by (simp add: deduce_buy_token_def)

section \<open>Configuration resolution\<close>

lemma get_resolve: "get cfg [snake, camel] dflt = resolve cfg snake camel dflt"
  by (simp add: resolve_def split: option.splits)

lemma get_unrecognized: "k \<notin> set keys \<Longrightarrow> get (cfg(k \<mapsto> v)) keys dflt = get cfg keys dflt"
  by (induction keys) (auto split: option.splits)

lemma init_unrecognized:
  assumes "k \<notin> set config_keys"
  shows "init (cfg(k \<mapsto> v)) = init cfg"
proof -
  have "get (cfg(k \<mapsto> v)) [a, b] d = get cfg [a, b] d"
    if "a \<in> set config_keys" and "b \<in> set config_keys" for a b d
    using that assms by (intro get_unrecognized) auto
  then show ?thesis
    unfolding init_def by (simp add: config_keys_def)
qed

lemma init_empty: "init Map.empty = Inr default_mm"
  by (simp add: init_def bind_err_def default_mm_def)

lemma bind_err_Inr: "bind_err m f = Inr y \<Longrightarrow> \<exists>x. m = Inr x \<and> f x = Inr y"
  by (cases m) (simp_all add: bind_err_def)

lemma init_fields:
  assumes "init cfg = Inr s"
  shows "py_float (resolve cfg ''target_spread'' ''targetSpread'' (Num (3 / 100))) = Inr (target_spread s)
    \<and> half_spread_override s = resolve cfg ''half_spread_override'' ''halfSpreadOverride'' PyNone
    \<and> py_float (resolve cfg ''order_size'' ''orderSize'' (Num 10)) = Inr (order_size s)
    \<and> py_int (resolve cfg ''max_bids'' ''maxBids'' (Num 2)) = Inr (max_bids s)
    \<and> py_int (resolve cfg ''max_asks'' ''maxAsks'' (Num 2)) = Inr (max_asks s)
    \<and> py_float (resolve cfg ''cancel_if_away_by'' ''cancelIfAwayBy'' (Num (2 / 100))) = Inr (cancel_if_away_by s)
    \<and> py_float (resolve cfg ''max_inventory_per_token'' ''maxInventoryPerToken'' (Num 40)) = Inr (max_inventory_per_token s)
    \<and> py_float (resolve cfg ''max_notional_per_side'' ''maxNotionalPerSide'' (Num 120)) = Inr (max_notional_per_side s)
    \<and> py_float (resolve cfg ''skew_per_unit'' ''skewPerUnit'' (Num (5 / 10000))) = Inr (skew_per_unit s)
    \<and> py_float (resolve cfg ''min_place_size'' ''minPlaceSize'' (Num (1 / 10))) = Inr (min_place_size s)"
  using assms unfolding init_def get_resolve Let_def
  by (auto dest!: bind_err_Inr)

lemma init_sample:
  "init sample_cfg = Inr (default_mm\<lparr>target_spread := 4 / 100, order_size := 20, max_bids := 3\<rparr>)"
  by (simp add: init_def bind_err_def default_mm_def sample_cfg_def)

text \<open>
  C9. For every configuration dictionary from which \<open>SafeSpread\<close> is constructed,
  each parameter is resolved by trying its snake\_case name first and its camelCase
  name second, and binds the documented default when both are absent:
  target\_spread 0.03, order\_size 10.0, max\_bids 2, max\_asks 2, cancel\_if\_away\_by
  0.02, max\_inventory\_per\_token 40.0, max\_notional\_per\_side 120.0, skew\_per\_unit
  0.0005, min\_place\_size 0.1, half\_spread\_override none. The empty configuration
  gives the engine of defaults, and a key that is not one of the recognised names has
  no effect.
\<close>

theorem init_resolves_config:
  assumes "init cfg = Inr s"
  shows "py_float (resolve cfg ''target_spread'' ''targetSpread'' (Num (3 / 100))) = Inr (target_spread s)
    \<and> half_spread_override s = resolve cfg ''half_spread_override'' ''halfSpreadOverride'' PyNone
    \<and> py_float (resolve cfg ''order_size'' ''orderSize'' (Num 10)) = Inr (order_size s)
    \<and> py_int (resolve cfg ''max_bids'' ''maxBids'' (Num 2)) = Inr (max_bids s)
    \<and> py_int (resolve cfg ''max_asks'' ''maxAsks'' (Num 2)) = Inr (max_asks s)
    \<and> py_float (resolve cfg ''cancel_if_away_by'' ''cancelIfAwayBy'' (Num (2 / 100))) = Inr (cancel_if_away_by s)
    \<and> py_float (resolve cfg ''max_inventory_per_token'' ''maxInventoryPerToken'' (Num 40)) = Inr (max_inventory_per_token s)
    \<and> py_float (resolve cfg ''max_notional_per_side'' ''maxNotionalPerSide'' (Num 120)) = Inr (max_notional_per_side s)
    \<and> py_float (resolve cfg ''skew_per_unit'' ''skewPerUnit'' (Num (5 / 10000))) = Inr (skew_per_unit s)
    \<and> py_float (resolve cfg ''min_place_size'' ''minPlaceSize'' (Num (1 / 10))) = Inr (min_place_size s)
    \<and> init Map.empty = Inr default_mm
    \<and> (k \<notin> set config_keys \<longrightarrow> init (cfg(k \<mapsto> v)) = init cfg)"
  using init_fields [OF assms] init_empty init_unrecognized [of k cfg v]
  by blast

theorem init_resolves_config_witness:
  "init sample_cfg = Inr (default_mm\<lparr>target_spread := 4 / 100, order_size := 20, max_bids := 3\<rparr>)
   \<and> resolve sample_cfg ''target_spread'' ''targetSpread'' (Num (3 / 100)) = Num (4 / 100)
   \<and> resolve sample_cfg ''order_size'' ''orderSize'' (Num 10) = Num 20
   \<and> resolve sample_cfg ''max_asks'' ''maxAsks'' (Num 2) = Num 2
   \<and> ''colour'' \<notin> set config_keys
   \<and> init (sample_cfg(''colour'' \<mapsto> Num 5)) = init sample_cfg"
  using init_resolves_config [OF init_sample, of "''colour''" "Num 5"] init_sample
  by (simp add: resolve_def sample_cfg_def config_keys_def)

section \<open>Placement: what a returned order satisfies\<close>

lemma new_orders_buy:
  assumes "new_orders c s ords cash tb tp buy_token = Inr new"
    and "od \<in> set new" and "side od = BUY"
  obtains bid ask where "desired_quotes c s (mid_with_skew c s tp buy_token) = (bid, ask)"
    and "can_place_bid c s cash bid buy_token"
    and "bid_size c s cash bid buy_token = Inr (osize od)"
    and "price od = bid" and "token od = buy_token"
    and "max (min_place_size s) (MIN_SIZE c) \<le> osize od"
proof -
  obtain bid ask where dq: "desired_quotes c s (mid_with_skew c s tp buy_token) = (bid, ask)"
    by (cases "desired_quotes c s (mid_with_skew c s tp buy_token)")
  from assms dq have "can_place_bid c s cash bid buy_token
    \<and> bid_size c s cash bid buy_token = Inr (osize od) \<and> price od = bid \<and> token od = buy_token
    \<and> max (min_place_size s) (MIN_SIZE c) \<le> osize od"
    by (auto simp: new_orders_def Let_def bind_err_def split: if_splits sum.splits)
  then have a: "can_place_bid c s cash bid buy_token"
    and b: "bid_size c s cash bid buy_token = Inr (osize od)"
    and c: "price od = bid" and d: "token od = buy_token"
    and e: "max (min_place_size s) (MIN_SIZE c) \<le> osize od"
    by simp_all
  show thesis by (rule that [OF dq a b c d e])
qed

lemma new_orders_sell:
  assumes "new_orders c s ords cash tb tp buy_token = Inr new"
    and "od \<in> set new" and "side od = SELL"
  shows "can_place_ask c s tb \<and> osize od = ask_size c s tb (complement buy_token)
    \<and> token od = complement buy_token \<and> max (min_place_size s) (MIN_SIZE c) \<le> osize od"
proof -
  obtain bid ask where dq: "desired_quotes c s (mid_with_skew c s tp buy_token) = (bid, ask)"
    by (cases "desired_quotes c s (mid_with_skew c s tp buy_token)")
  with assms show ?thesis
    by (auto simp: new_orders_def Let_def bind_err_def split: if_splits sum.splits)
qed

section \<open>Inventory cap on the bid\<close>

lemma new_orders_half_cap:
  "new_orders sample_consts mm_half_cap [] 100 0 (1 / 2) TokenA
     = Inr [\<lparr>price = 48 / 100, osize = 15, side = BUY, token = TokenA\<rparr>]"
  by code_simp

lemma half_cap_facts:
  "holdings mm_half_cap TokenA = 20 \<and> max_inventory_per_token mm_half_cap = 40
   \<and> MIN_SIZE sample_consts = 15 \<and> on_grid (MAX_DECIMALS sample_consts) 20"
  by code_simp

text \<open>
  C3, as stated: no BUY is returned when holdings of the buy-token meet or exceed
  \<open>max_inventory_per_token\<close>, and the size of a returned BUY never pushes holdings
  plus size past the cap, also after the clamp to \<open>MIN_SIZE\<close>. The second part fails:
  with 39 held under a cap of 40 the headroom is 1, the clamp raises the size to
  \<open>MIN_SIZE = 15\<close>, and the BUY of 15 is returned.
\<close>

theorem bid_size_exceeds_headroom:
  "new_orders sample_consts mm_near_cap [] 100 0 (1 / 2) TokenA
     = Inr [\<lparr>price = 48 / 100, osize = 15, side = BUY, token = TokenA\<rparr>]
   \<and> \<not> holdings mm_near_cap TokenA + 15 \<le> max_inventory_per_token mm_near_cap"
  by code_simp

text \<open>
  C3, amended: a BUY is returned only when holdings of the buy-token are below
  \<open>max_inventory_per_token\<close>; its size is at most
  \<open>round(max(MIN_SIZE, headroom), MAX_DECIMALS)\<close> with
  \<open>headroom = max_inventory_per_token - holdings\<close>, so holdings plus size stay within
  the cap when the headroom is at least \<open>MIN_SIZE\<close> and has at most \<open>MAX_DECIMALS\<close>
  decimals. A headroom below \<open>MIN_SIZE\<close> is overridden by the clamp to \<open>MIN_SIZE\<close>.
\<close>

theorem bid_respects_inventory_cap:
  assumes "new_orders c s ords cash tb tp buy_token = Inr new"
    and "od \<in> set new" and "side od = BUY"
  shows "holdings s buy_token < max_inventory_per_token s
         \<and> osize od \<le> py_round (max (MIN_SIZE c) (max_inventory_per_token s - holdings s buy_token))
                          (MAX_DECIMALS c)
         \<and> (MIN_SIZE c \<le> max_inventory_per_token s - holdings s buy_token
              \<and> on_grid (MAX_DECIMALS c) (max_inventory_per_token s - holdings s buy_token)
            \<longrightarrow> holdings s buy_token + osize od \<le> max_inventory_per_token s)"
proof -
  let ?h = "max_inventory_per_token s - holdings s buy_token"
  from assms obtain bid ask where cp: "can_place_bid c s cash bid buy_token"
    and bs: "bid_size c s cash bid buy_token = Inr (osize od)"
    by (rule new_orders_buy)
  from cp have inv: "holdings s buy_token < max_inventory_per_token s"
    by (auto simp: can_place_bid_def split: if_splits)
  define sz where "sz = min (min (min (order_size s) (cash / bid))
                             (max_notional_per_side s / bid)) (max 0 ?h)"
  have sz: "sz \<le> max 0 ?h"
    by (simp add: sz_def)
  from bs have od: "osize od = py_round (clamp sz (MIN_SIZE c) 1000000000) (MAX_DECIMALS c)"
    by (auto simp: bid_size_def Let_def sz_def split: if_splits)
  from sz inv have "clamp sz (MIN_SIZE c) 1000000000 \<le> max (MIN_SIZE c) ?h"
    by (auto simp: clamp_def)
  then have le: "osize od \<le> py_round (max (MIN_SIZE c) ?h) (MAX_DECIMALS c)"
    unfolding od by (rule py_round_mono)
  have "holdings s buy_token + osize od \<le> max_inventory_per_token s"
    if "MIN_SIZE c \<le> ?h" and "on_grid (MAX_DECIMALS c) ?h"
  proof -
    from that have "py_round (max (MIN_SIZE c) ?h) (MAX_DECIMALS c) = ?h"
      by (simp add: max_absorb2 py_round_id)
    with le show ?thesis by simp
  qed
  with inv le show ?thesis by blast
qed

theorem bid_respects_inventory_cap_witness:
  "new_orders sample_consts mm_half_cap [] 100 0 (1 / 2) TokenA
     = Inr [\<lparr>price = 48 / 100, osize = 15, side = BUY, token = TokenA\<rparr>]
   \<and> holdings mm_half_cap TokenA < max_inventory_per_token mm_half_cap
   \<and> MIN_SIZE sample_consts \<le> max_inventory_per_token mm_half_cap - holdings mm_half_cap TokenA
   \<and> on_grid (MAX_DECIMALS sample_consts)
        (max_inventory_per_token mm_half_cap - holdings mm_half_cap TokenA)
   \<and> holdings mm_half_cap TokenA + 15 \<le> max_inventory_per_token mm_half_cap"
  using bid_respects_inventory_cap [OF new_orders_half_cap,
      of "\<lparr>price = 48 / 100, osize = 15, side = BUY, token = TokenA\<rparr>"]
    new_orders_half_cap half_cap_facts
  by simp

section \<open>Ask sizing\<close>

lemma new_orders_over_cap:
  "new_orders sample_consts mm_over_cap [] 0 20 (1 / 2) TokenA
     = Inr [\<lparr>price = 48 / 100, osize = 20, side = SELL, token = TokenB\<rparr>]"
  by code_simp

lemma over_cap_facts:
  "holdings mm_over_cap TokenB = 70 \<and> max_inventory_per_token mm_over_cap = 40
   \<and> MIN_SIZE sample_consts = 15 \<and> min_place_size mm_over_cap = 1 / 10
   \<and> on_grid (MAX_DECIMALS sample_consts) 20
   \<and> py_round 20 (MAX_DECIMALS sample_consts) = 20"
  by code_simp

text \<open>
  C5, as stated: a returned SELL has size at most the free balance, and at least
  \<open>min(holdings - max_inventory_per_token, free_balance)\<close> when holdings of the
  complement token exceed the cap. Both bounds fail, since the size is rounded after
  the clamp: with 70 held under a cap of 40, a free balance of 20.006 gives a SELL of
  20.01, above the balance, and a free balance of 20.004 gives a SELL of 20.00, below
  \<open>min(30, 20.004)\<close>.
\<close>

theorem ask_size_rounding:
  "new_orders sample_consts mm_over_cap [] 0 (20006 / 1000) (1 / 2) TokenA
     = Inr [\<lparr>price = 48 / 100, osize = 2001 / 100, side = SELL, token = TokenB\<rparr>]
   \<and> \<not> (2001 / 100 :: rat) \<le> 20006 / 1000
   \<and> new_orders sample_consts mm_over_cap [] 0 (20004 / 1000) (1 / 2) TokenA
     = Inr [\<lparr>price = 48 / 100, osize = 20, side = SELL, token = TokenB\<rparr>]
   \<and> max_inventory_per_token mm_over_cap < holdings mm_over_cap TokenB
   \<and> \<not> min (holdings mm_over_cap TokenB - max_inventory_per_token mm_over_cap) (20004 / 1000) \<le> (20 :: rat)"
  by code_simp

text \<open>
  C5, amended: a SELL is returned only if the free balance is at least
  \<open>max(min_place_size, MIN_SIZE)\<close>; a returned SELL has size at least
  \<open>max(min_place_size, MIN_SIZE)\<close> and at most \<open>round(free_balance, MAX_DECIMALS)\<close>,
  hence at most the free balance when that has at most \<open>MAX_DECIMALS\<close> decimals; and
  when holdings of the complement token exceed \<open>max_inventory_per_token\<close> the size is
  at least \<open>round(min(holdings - max_inventory_per_token, free_balance), MAX_DECIMALS)\<close>.
\<close>

theorem ask_size_bounds:
  assumes "new_orders c s ords cash tb tp buy_token = Inr new"
    and "od \<in> set new" and "side od = SELL"
  shows "max (min_place_size s) (MIN_SIZE c) \<le> tb
         \<and> max (min_place_size s) (MIN_SIZE c) \<le> osize od
         \<and> osize od \<le> py_round tb (MAX_DECIMALS c)
         \<and> (on_grid (MAX_DECIMALS c) tb \<longrightarrow> osize od \<le> tb)
         \<and> (max_inventory_per_token s < holdings s (complement buy_token) \<longrightarrow>
              py_round (min (holdings s (complement buy_token) - max_inventory_per_token s) tb)
                (MAX_DECIMALS c) \<le> osize od)"
proof -
  let ?t = "complement buy_token"
  from new_orders_sell [OF assms] have cp: "can_place_ask c s tb"
    and od: "osize od = ask_size c s tb ?t"
    and mn: "max (min_place_size s) (MIN_SIZE c) \<le> osize od"
    by simp_all
  from cp have tb: "max (min_place_size s) (MIN_SIZE c) \<le> tb"
    by (simp add: can_place_ask_def)
  then have lo: "MIN_SIZE c \<le> tb" by simp
  define sz where "sz = (if max_inventory_per_token s < holdings s ?t
      then max (min (order_size s) tb) (min (holdings s ?t - max_inventory_per_token s) tb)
      else min (order_size s) tb)"
  have sz: "osize od = py_round (clamp sz (MIN_SIZE c) tb) (MAX_DECIMALS c)"
    unfolding od ask_size_def Let_def sz_def by simp
  have over: "min (holdings s ?t - max_inventory_per_token s) tb \<le> sz"
    if "max_inventory_per_token s < holdings s ?t"
    using that by (simp add: sz_def)
  from lo have "clamp sz (MIN_SIZE c) tb \<le> tb"
    by (simp add: clamp_def)
  then have up: "osize od \<le> py_round tb (MAX_DECIMALS c)"
    unfolding sz by (rule py_round_mono)
  then have grid: "on_grid (MAX_DECIMALS c) tb \<Longrightarrow> osize od \<le> tb"
    by (simp add: py_round_id)
  have "py_round (min (holdings s ?t - max_inventory_per_token s) tb) (MAX_DECIMALS c) \<le> osize od"
    if "max_inventory_per_token s < holdings s ?t"
  proof -
    from over [OF that] have "min (holdings s ?t - max_inventory_per_token s) tb
        \<le> clamp sz (MIN_SIZE c) tb"
      by (auto simp: clamp_def)
    then show ?thesis unfolding sz by (rule py_round_mono)
  qed
  with tb mn up grid show ?thesis by blast
qed

theorem ask_size_bounds_witness:
  "new_orders sample_consts mm_over_cap [] 0 20 (1 / 2) TokenA
     = Inr [\<lparr>price = 48 / 100, osize = 20, side = SELL, token = TokenB\<rparr>]
   \<and> max (min_place_size mm_over_cap) (MIN_SIZE sample_consts) \<le> 20
   \<and> on_grid (MAX_DECIMALS sample_consts) 20
   \<and> max_inventory_per_token mm_over_cap < holdings mm_over_cap (complement TokenA)
   \<and> py_round (min (holdings mm_over_cap (complement TokenA) - max_inventory_per_token mm_over_cap) 20)
        (MAX_DECIMALS sample_consts) \<le> 20"
  using ask_size_bounds [OF new_orders_over_cap,
      of "\<lparr>price = 48 / 100, osize = 20, side = SELL, token = TokenB\<rparr>"]
    new_orders_over_cap over_cap_facts
  by simp

section \<open>Count caps after cancellation\<close>
























section \<open>Collateral across a cycle\<close>
















end
